theory Spec2Isabelle
  imports Main "HOL-Library.Sublist"
begin

section \<open>Exceptions and stored rows\<close>

text \<open>
  Every exception the handlers of \<^verbatim>\<open>app/app.py\<close>, \<^verbatim>\<open>app/posts.py\<close>,
  \<^verbatim>\<open>app/comments.py\<close>, \<^verbatim>\<open>app/utils.py\<close> and \<^verbatim>\<open>app/auth_backend.py\<close> raise or catch
  is a value of \<open>exc\<close>. \<open>HTTPException\<close> carries the status code and the detail.
  The classes from \<open>ExpiredSignatureError\<close> to \<open>ImmatureSignatureError\<close> are
  the ones PyJWT derives from \<open>jwt.InvalidTokenError\<close>; the remaining ones are not.
\<close>

datatype exc =
    HTTPException nat string
  | ExpiredSignatureError
  | InvalidSignatureError
  | DecodeError
  | InvalidAudienceError
  | MissingRequiredClaimError
  | ImmatureSignatureError
  | ValueError
  | OverflowError
  | IntegrityError
  | OperationalError
  | RuntimeError string

text \<open>\<open>isinstance(e, jwt.InvalidTokenError)\<close>.\<close>

fun is_InvalidTokenError :: "exc \<Rightarrow> bool" where
  "is_InvalidTokenError ExpiredSignatureError = True"
| "is_InvalidTokenError InvalidSignatureError = True"
| "is_InvalidTokenError DecodeError = True"
| "is_InvalidTokenError InvalidAudienceError = True"
| "is_InvalidTokenError MissingRequiredClaimError = True"
| "is_InvalidTokenError ImmatureSignatureError = True"
| "is_InvalidTokenError _ = False"

text \<open>
  A user id is a UUID, kept as its 128-bit number. \<open>User\<close> of \<^verbatim>\<open>app/models.py\<close>
  with the columns of \<open>SQLAlchemyBaseUserTableUUID\<close>.
\<close>

type_synonym uuid = nat

record user =
  user_id :: uuid
  email :: string
  hashed_password :: string
  is_active :: bool
  is_superuser :: bool
  is_verified :: bool
  full_name :: "string option"

text \<open>
  The claims of a decoded token: \<open>sub\<close> is what \<open>payload.get("sub")\<close> returns,
  \<open>aud\<close> the audiences and \<open>exp\<close> the expiry in whole seconds.
\<close>

record claims =
  sub :: "string option"
  aud :: "string list"
  exp :: nat

text \<open>The users table: \<open>user_db.get(id)\<close> selects the row with that primary key.\<close>

definition user_db_get :: "user list \<Rightarrow> uuid \<Rightarrow> user option" where
  "user_db_get users i = find (\<lambda>u. user_id u = i) users"

text \<open>
  \<open>user_db.update(user, {"is_verified": True})\<close>: the row of that user gets the
  new value; every other row is left alone.
\<close>

definition user_db_update_is_verified :: "user list \<Rightarrow> user \<Rightarrow> bool \<Rightarrow> user list" where
  "user_db_update_is_verified users u b =
     map (\<lambda>r. if user_id r = user_id u then r\<lparr>is_verified := b\<rparr> else r) users"

datatype db_write = Update_is_verified uuid bool

section \<open>Email verification: \<open>verify_email_get\<close> of \<^verbatim>\<open>app/app.py\<close>\<close>

text \<open>
  The five HTML pages the endpoint can return, named by their headings. The pages for
  a verified user show the user's email, the last one shows \<open>str(e)\<close> of the
  exception that was caught.
\<close>

datatype page =
    EmailVerified string
  | AlreadyVerified string
  | TokenExpired
  | InvalidToken
  | VerificationFailed exc

fun heading :: "page \<Rightarrow> string" where
  "heading (EmailVerified _) = ''Email Verified!''"
| "heading (AlreadyVerified _) = ''Already Verified''"
| "heading TokenExpired = ''Token Expired''"
| "heading InvalidToken = ''Invalid Token''"
| "heading (VerificationFailed _) = ''Verification Failed''"

text \<open>
  The body of the \<open>try\<close> block. \<open>jwt_decode\<close> stands for
  \<open>jwt.decode(token, JWT_SECRET, audience="fastapi-users:verify", algorithms=["HS256"])\<close>
  at the time of the request and \<open>UUID\<close> for the constructor \<open>uuid.UUID\<close>, which
  raises \<open>ValueError\<close> where the function returns \<open>None\<close>. The result is the page,
  the users table after the call and the writes made to it. The store is taken to
  answer every call; a store that fails is outside this model.
\<close>

definition verify_email_try ::
  "(string \<Rightarrow> exc + claims) \<Rightarrow> (string \<Rightarrow> uuid option) \<Rightarrow> user list \<Rightarrow> string
     \<Rightarrow> exc + (page \<times> user list \<times> db_write list)" where
  "verify_email_try jwt_decode UUID users token =
     (case jwt_decode token of
        Inl e \<Rightarrow> Inl e
      | Inr payload \<Rightarrow>
          (case sub payload of
             None \<Rightarrow> Inl (HTTPException 400 ''Invalid token: missing user ID'')
           | Some uid \<Rightarrow>
               if uid = [] then Inl (HTTPException 400 ''Invalid token: missing user ID'')
               else
                 (case UUID uid of
                    None \<Rightarrow> Inl ValueError
                  | Some i \<Rightarrow>
                      (case user_db_get users i of
                         None \<Rightarrow> Inl (HTTPException 400 ''User not found'')
                       | Some u \<Rightarrow>
                           if is_verified u then Inr (AlreadyVerified (email u), users, [])
                           else Inr (EmailVerified (email u),
                                     user_db_update_is_verified users u True,
                                     [Update_is_verified (user_id u) True])))))"

text \<open>
  The \<open>except\<close> clauses, in the order of the source: \<open>jwt.ExpiredSignatureError\<close>,
  then \<open>jwt.InvalidTokenError\<close>, then \<open>Exception\<close>.
\<close>

definition verify_email_except :: "exc \<Rightarrow> page" where
  "verify_email_except e =
     (if e = ExpiredSignatureError then TokenExpired
      else if is_InvalidTokenError e then InvalidToken
      else VerificationFailed e)"

definition verify_email_get ::
  "(string \<Rightarrow> exc + claims) \<Rightarrow> (string \<Rightarrow> uuid option) \<Rightarrow> user list \<Rightarrow> string
     \<Rightarrow> page \<times> user list \<times> db_write list" where
  "verify_email_get jwt_decode UUID users token =
     (case verify_email_try jwt_decode UUID users token of
        Inr r \<Rightarrow> r
      | Inl e \<Rightarrow> (verify_email_except e, users, []))"

section \<open>Login and refresh: \<^verbatim>\<open>app/app.py\<close> and \<^verbatim>\<open>app/auth.py\<close>\<close>

record credentials =
  username :: string
  password :: string

text \<open>
  \<open>UserManager\<close> of \<^verbatim>\<open>app/manager.py\<close> inherits \<open>authenticate\<close> from the
  \<open>BaseUserManager\<close> of fastapi-users: the user is looked up by the submitted email
  (\<open>get_by_email\<close>, the answer of the store), the submitted password is checked
  against the stored hash (\<open>verify\<close>, the password helper), and \<open>None\<close> is returned
  when either step fails. The flag \<open>is_active\<close> is not looked at here.
\<close>

definition UserManager_authenticate ::
  "(string \<Rightarrow> string \<Rightarrow> bool) \<Rightarrow> (string \<Rightarrow> user option) \<Rightarrow> credentials \<Rightarrow> user option" where
  "UserManager_authenticate verify get_by_email cr =
     (case get_by_email (username cr) of
        None \<Rightarrow> None
      | Some u \<Rightarrow> if verify (password cr) (hashed_password u) then Some u else None)"

text \<open>
  \<open>JWTStrategy\<close> of fastapi-users, as \<open>get_access_token_strategy\<close> and
  \<open>get_refresh_token_strategy\<close> of \<^verbatim>\<open>app/auth.py\<close> build it: the same secret and the
  default audience for both, a lifetime of 900 and of 604800 seconds. \<open>write_token\<close>
  signs the user's id, the audience and the expiry, which is the clock in whole
  seconds (\<open>now\<close>) plus the lifetime; nothing else goes into the token. \<open>jwt_encode\<close>
  stands for \<open>jwt.encode\<close> under the secret, \<open>str_uuid\<close> for \<open>str\<close> on a UUID.
\<close>

definition access_lifetime :: nat where
  "access_lifetime = 900"

definition refresh_lifetime :: nat where
  "refresh_lifetime = 604800"

definition write_token ::
  "(claims \<Rightarrow> string) \<Rightarrow> (uuid \<Rightarrow> string) \<Rightarrow> nat \<Rightarrow> nat \<Rightarrow> user \<Rightarrow> string" where
  "write_token jwt_encode str_uuid now lifetime u =
     jwt_encode \<lparr>sub = Some (str_uuid (user_id u)), aud = [''fastapi-users:auth''],
                 exp = now + lifetime\<rparr>"

text \<open>
  \<open>read_token\<close>: a token that does not decode (bad signature, expired, wrong
  audience), has no subject, or whose subject is no id of a stored user gives
  \<open>None\<close>. \<open>jwt_decode\<close> stands for the decoding at the time of the request.
\<close>

definition read_token ::
  "(string \<Rightarrow> exc + claims) \<Rightarrow> (string \<Rightarrow> uuid option) \<Rightarrow> user list \<Rightarrow> string \<Rightarrow> user option" where
  "read_token jwt_decode UUID users token =
     (case jwt_decode token of
        Inl e \<Rightarrow> None
      | Inr data \<Rightarrow>
          (case sub data of
             None \<Rightarrow> None
           | Some s \<Rightarrow> (case UUID s of None \<Rightarrow> None | Some i \<Rightarrow> user_db_get users i)))"

record cookie =
  cookie_key :: string
  cookie_value :: string
  max_age :: nat
  httponly :: bool
  secure :: bool
  samesite :: string

record token_response =
  access_token :: string
  token_type :: string
  set_cookie :: cookie

text \<open>
  The refresh cookie both endpoints set. \<open>ENVIRONMENT\<close> is the setting of
  \<^verbatim>\<open>app/config.py\<close>.
\<close>

definition refresh_cookie :: "string \<Rightarrow> string \<Rightarrow> cookie" where
  "refresh_cookie ENVIRONMENT v =
     \<lparr>cookie_key = ''refresh_token'', cookie_value = v, max_age = 604800, httponly = True,
      secure = (ENVIRONMENT = ''production''), samesite = ''lax''\<rparr>"

text \<open>
  \<open>login\<close>. \<open>um_authenticate\<close> is \<open>user_manager.authenticate\<close>, and
  \<open>strategy_write lifetime\<close> is \<open>write_token\<close> of the strategy with that lifetime
  at the time of the request.
\<close>

definition login ::
  "(credentials \<Rightarrow> user option) \<Rightarrow> (nat \<Rightarrow> user \<Rightarrow> string) \<Rightarrow> string \<Rightarrow> credentials
     \<Rightarrow> exc + token_response" where
  "login um_authenticate strategy_write ENVIRONMENT cr =
     (case um_authenticate cr of
        None \<Rightarrow> Inl (HTTPException 400 ''LOGIN_BAD_CREDENTIALS'')
      | Some u \<Rightarrow>
          if \<not> is_active u then Inl (HTTPException 400 ''LOGIN_BAD_CREDENTIALS'')
          else Inr \<lparr>access_token = strategy_write access_lifetime u, token_type = ''bearer'',
                    set_cookie = refresh_cookie ENVIRONMENT (strategy_write refresh_lifetime u)\<rparr>)"

text \<open>
  \<open>refresh_token\<close>: the body of the \<open>try\<close> block, then the endpoint. The
  \<open>HTTPException\<close> raised inside the block is caught by \<open>except Exception\<close> and
  replaced. \<open>strategy_read\<close> is \<open>read_token\<close> of the refresh strategy.
\<close>

definition refresh_token_try ::
  "(string \<Rightarrow> user option) \<Rightarrow> (nat \<Rightarrow> user \<Rightarrow> string) \<Rightarrow> string \<Rightarrow> string
     \<Rightarrow> exc + token_response" where
  "refresh_token_try strategy_read strategy_write ENVIRONMENT refresh_token_value =
     (case strategy_read refresh_token_value of
        None \<Rightarrow> Inl (HTTPException 401 ''Invalid refresh token or inactive user'')
      | Some u \<Rightarrow>
          if \<not> is_active u then Inl (HTTPException 401 ''Invalid refresh token or inactive user'')
          else Inr \<lparr>access_token = strategy_write access_lifetime u, token_type = ''bearer'',
                    set_cookie = refresh_cookie ENVIRONMENT (strategy_write refresh_lifetime u)\<rparr>)"

definition refresh_token ::
  "(string \<Rightarrow> user option) \<Rightarrow> (nat \<Rightarrow> user \<Rightarrow> string) \<Rightarrow> string \<Rightarrow> (string \<rightharpoonup> string)
     \<Rightarrow> exc + token_response" where
  "refresh_token strategy_read strategy_write ENVIRONMENT cookies =
     (case cookies ''refresh_token'' of
        None \<Rightarrow> Inl (HTTPException 401 ''Refresh token not found. Please login again.'')
      | Some refresh_token_value \<Rightarrow>
          if refresh_token_value = []
          then Inl (HTTPException 401 ''Refresh token not found. Please login again.'')
          else
            (case refresh_token_try strategy_read strategy_write ENVIRONMENT refresh_token_value of
               Inl e \<Rightarrow> Inl (HTTPException 401 ''Invalid or expired refresh token. Please login again.'')
             | Inr r \<Rightarrow> Inr r))"

section \<open>The admin session: \<open>AdminAuthBackend\<close> of \<^verbatim>\<open>app/auth_backend.py\<close>\<close>

text \<open>
  The server-side session is a dictionary of strings. \<open>select_user\<close> is the answer
  of the store to \<open>select(User).where(User.id == user_id)\<close> followed by
  \<open>scalar_one_or_none()\<close>: the row, no row, or an exception of the driver.
\<close>

type_synonym session = "string \<rightharpoonup> string"

definition AdminAuthBackend_login ::
  "(string \<Rightarrow> string \<Rightarrow> bool) \<Rightarrow> (string \<Rightarrow> user option) \<Rightarrow> (uuid \<Rightarrow> string) \<Rightarrow> credentials
     \<Rightarrow> session \<Rightarrow> bool \<times> session" where
  "AdminAuthBackend_login verify get_by_email str_uuid form s =
     (case get_by_email (username form) of
        None \<Rightarrow> (False, s)
      | Some u \<Rightarrow>
          if \<not> verify (password form) (hashed_password u) then (False, s)
          else if \<not> is_active u \<or> \<not> is_superuser u then (False, s)
          else (True, s(''user_id'' \<mapsto> str_uuid (user_id u), ''user_email'' \<mapsto> email u)))"

definition AdminAuthBackend_logout :: "session \<Rightarrow> bool \<times> session" where
  "AdminAuthBackend_logout s = (True, Map.empty)"

definition AdminAuthBackend_authenticate ::
  "(string \<Rightarrow> exc + user option) \<Rightarrow> session \<Rightarrow> (exc + bool) \<times> session" where
  "AdminAuthBackend_authenticate select_user s =
     (case s ''user_id'' of
        None \<Rightarrow> (Inr False, s)
      | Some uid \<Rightarrow>
          if uid = [] then (Inr False, s)
          else
            (case select_user uid of
               Inl e \<Rightarrow> (Inl e, s)
             | Inr None \<Rightarrow> (Inr False, Map.empty)
             | Inr (Some u) \<Rightarrow>
                 if \<not> is_active u \<or> \<not> is_superuser u then (Inr False, Map.empty)
                 else (Inr True, s)))"

section \<open>Media cleanup: \<open>delete_file_from_imagekit\<close> of \<^verbatim>\<open>app/utils.py\<close>\<close>

text \<open>
  The ImageKit client of \<^verbatim>\<open>app/imagekit_client.py\<close>, which is \<open>None\<close> when its
  construction failed. \<open>list_files\<close> answers a lookup by path with the ids of the
  files found (the \<open>file_id\<close>s of \<open>file_list.list\<close>, empty when that is empty or
  \<open>None\<close>) or raises; \<open>delete_file\<close> returns or raises.
\<close>

record imagekit_client =
  list_files :: "string \<Rightarrow> exc + string list"
  delete_file :: "string \<Rightarrow> exc option"

text \<open>Every call made to the media store, and every line written to the log.\<close>

datatype media_call = ListFiles string | DeleteFile string

datatype log_line =
    LogInfo string
  | LogWarning string
  | LogSuccess string
  | LogError string exc

text \<open>
  What one run of the routine did: the URL it was given, the calls it made to the
  media store in order, its log lines, and the exception that left it (if any).
\<close>

record cleanup =
  file_url :: string
  calls :: "media_call list"
  logs :: "log_line list"
  raised :: "exc option"

text \<open>
  The body of the \<open>try\<close> block: the calls made, the lines logged and the exception
  that ended the block, if one did. \<open>urlparse_path\<close> stands for
  \<open>urlparse(file_url).path\<close>.
\<close>

definition delete_file_try ::
  "imagekit_client \<Rightarrow> (string \<Rightarrow> exc + string) \<Rightarrow> string
     \<Rightarrow> media_call list \<times> log_line list \<times> exc option" where
  "delete_file_try imagekit urlparse_path url =
     (case urlparse_path url of
        Inl e \<Rightarrow> ([], [], Some e)
      | Inr path \<Rightarrow>
          (case list_files imagekit path of
             Inl e \<Rightarrow> ([ListFiles path], [LogInfo ''Attempting to find file with path''], Some e)
           | Inr [] \<Rightarrow>
               ([ListFiles path],
                [LogInfo ''Attempting to find file with path'',
                 LogWarning ''Could not find file at path in ImageKit to delete.''], None)
           | Inr (file_id # _) \<Rightarrow>
               (case delete_file imagekit file_id of
                  Some e \<Rightarrow>
                    ([ListFiles path, DeleteFile file_id],
                     [LogInfo ''Attempting to find file with path'', LogInfo ''Found file_id. Deleting...''],
                     Some e)
                | None \<Rightarrow>
                    ([ListFiles path, DeleteFile file_id],
                     [LogInfo ''Attempting to find file with path'', LogInfo ''Found file_id. Deleting...'',
                      LogSuccess ''Successfully deleted file from ImageKit.''],
                     None))))"

text \<open>
  The routine. \<open>IMAGEKIT_URL_ENDPOINT\<close> is the setting of \<^verbatim>\<open>app/config.py\<close>;
  \<open>startswith\<close> is \<open>prefix\<close>. The \<open>except Exception\<close> clause logs the exception
  and returns.
\<close>

definition delete_file_from_imagekit ::
  "string \<Rightarrow> imagekit_client option \<Rightarrow> (string \<Rightarrow> exc + string) \<Rightarrow> string \<Rightarrow> cleanup" where
  "delete_file_from_imagekit IMAGEKIT_URL_ENDPOINT imagekit urlparse_path url =
     (if url = [] \<or> imagekit = None
      then \<lparr>file_url = url, calls = [],
            logs = [LogWarning ''No file URL provided or ImageKit client not init.''], raised = None\<rparr>
      else if \<not> prefix IMAGEKIT_URL_ENDPOINT url
      then \<lparr>file_url = url, calls = [],
            logs = [LogWarning ''Skipping delete: URL is not a valid ImageKit URL.''], raised = None\<rparr>
      else
        (case imagekit of
           None \<Rightarrow> \<lparr>file_url = url, calls = [],
                     logs = [LogWarning ''No file URL provided or ImageKit client not init.''],
                     raised = None\<rparr>
         | Some client \<Rightarrow>
             (case delete_file_try client urlparse_path url of
                (cs, ls, None) \<Rightarrow> \<lparr>file_url = url, calls = cs, logs = ls, raised = None\<rparr>
              | (cs, ls, Some e) \<Rightarrow>
                  \<lparr>file_url = url, calls = cs,
                   logs = ls @ [LogError ''Error deleting file from ImageKit'' e], raised = None\<rparr>)))"

text \<open>
  \<open>asyncio.gather(*delete_tasks)\<close>: every task runs; the first exception a task
  raised is raised by \<open>gather\<close>.
\<close>

definition gather :: "cleanup list \<Rightarrow> exc option" where
  "gather delete_tasks =
     (case filter (\<lambda>t. raised t \<noteq> None) delete_tasks of [] \<Rightarrow> None | t # _ \<Rightarrow> raised t)"

section \<open>Posts and comments: \<^verbatim>\<open>app/posts.py\<close>, \<^verbatim>\<open>app/comments.py\<close>\<close>

text \<open>
  \<open>Post\<close> and \<open>Comment\<close> of \<^verbatim>\<open>app/models.py\<close>, without the two timestamps. The
  columns \<open>title\<close> of a post and \<open>content\<close> of a comment are not nullable.
\<close>

record post =
  post_id :: int
  title :: string
  content :: "string option"
  image_url :: "string option"
  video_url :: "string option"
  owner_id :: uuid

record comment =
  comment_id :: int
  comment_content :: string
  comment_owner_id :: uuid
  comment_post_id :: int

record store =
  posts :: "post list"
  comments :: "comment list"

text \<open>
  \<open>PostUpdate\<close> and \<open>CommentUpdate\<close> of \<^verbatim>\<open>app/schemas.py\<close>. A field the request
  did not set is \<open>None\<close> (\<open>model_dump(exclude_unset=True)\<close> leaves it out); a field
  it set is \<open>Some v\<close>, where \<open>v\<close> is the string or \<open>None\<close> for null.
\<close>

record post_update =
  upd_title :: "string option option"
  upd_content :: "string option option"
  upd_image_url :: "string option option"
  upd_video_url :: "string option option"


text \<open>
  \<open>select(Post).where(Post.id == post_id)\<close>, \<open>scalar_one_or_none()\<close>. The id is the
  path parameter of the request, any Python integer; the handlers pass it to the query
  as it is. \<open>bind_id\<close> is the driver of the configured database binding the id to the
  integer key: it raises for an id outside the range it can bind (the driver of SQLite
  raises \<open>OverflowError\<close> outside 64 bits), and the exception leaves the query and
  the handler. For an id it binds, the query gives the row with that key or none.
\<close>

definition select_post :: "(int \<Rightarrow> exc option) \<Rightarrow> post list \<Rightarrow> int \<Rightarrow> exc + post option" where
  "select_post bind_id ps i =
     (case bind_id i of Some e \<Rightarrow> Inl e | None \<Rightarrow> Inr (find (\<lambda>p. post_id p = i) ps))"


text \<open>
  The \<open>setattr\<close> loop over the fields that were set, followed by the commit. The
  commit raises \<open>IntegrityError\<close> when the title was set to null, and
  \<open>OperationalError\<close> when the store refuses it for a reason of its own
  (\<open>commit_ok\<close> is false: connection lost, a value too long for its column).
\<close>

definition setattr_field :: "'a option \<Rightarrow> 'a \<Rightarrow> 'a" where
  "setattr_field upd old = (case upd of None \<Rightarrow> old | Some v \<Rightarrow> v)"

definition commit_post_update :: "bool \<Rightarrow> post \<Rightarrow> post_update \<Rightarrow> exc + post" where
  "commit_post_update commit_ok p u =
     (case setattr_field (upd_title u) (Some (title p)) of
        None \<Rightarrow> Inl IntegrityError
      | Some t \<Rightarrow>
          if \<not> commit_ok then Inl OperationalError
          else Inr (p\<lparr>title := t,
                      content := setattr_field (upd_content u) (content p),
                      image_url := setattr_field (upd_image_url u) (image_url p),
                      video_url := setattr_field (upd_video_url u) (video_url p)\<rparr>))"


text \<open>
  The deletion task of one field: \<open>if old and old != new\<close>, where a string is true
  when it is not empty and \<open>None\<close> is false.
\<close>

definition delete_task_if_changed ::
  "(string \<Rightarrow> cleanup) \<Rightarrow> string option \<Rightarrow> string option \<Rightarrow> cleanup list" where
  "delete_task_if_changed del old new =
     (case old of
        None \<Rightarrow> []
      | Some s \<Rightarrow> if s \<noteq> [] \<and> Some s \<noteq> new then [del s] else [])"

text \<open>The deletion task of one captured URL on delete: \<open>if url_to_delete\<close>.\<close>

definition delete_task_if_set :: "(string \<Rightarrow> cleanup) \<Rightarrow> string option \<Rightarrow> cleanup list" where
  "delete_task_if_set del url =
     (case url of None \<Rightarrow> [] | Some s \<Rightarrow> if s \<noteq> [] then [del s] else [])"

text \<open>
  \<open>update_post\<close>. \<open>del\<close> is \<open>delete_file_from_imagekit\<close> with the settings and the
  client of the process; \<open>caller\<close> is the user the dependency
  \<open>current_active_verified_user\<close> resolved. The result is the response or the
  exception that left the handler, the posts table after the call, and the deletion
  tasks that ran.
\<close>

definition update_post ::
  "(string \<Rightarrow> cleanup) \<Rightarrow> (int \<Rightarrow> exc option) \<Rightarrow> bool \<Rightarrow> post list \<Rightarrow> user \<Rightarrow> int
     \<Rightarrow> post_update \<Rightarrow> (exc + post) \<times> post list \<times> cleanup list" where
  "update_post del bind_id commit_ok ps caller i u =
     (case select_post bind_id ps i of
        Inl e \<Rightarrow> (Inl e, ps, [])
      | Inr None \<Rightarrow> (Inl (HTTPException 404 ''Post not found''), ps, [])
      | Inr (Some p) \<Rightarrow>
          if owner_id p \<noteq> user_id caller
          then (Inl (HTTPException 403 ''Not authorized to update this post''), ps, [])
          else
            (let old_image_url = (if upd_image_url u \<noteq> None then image_url p else None);
                 old_video_url = (if upd_video_url u \<noteq> None then video_url p else None)
             in case commit_post_update commit_ok p u of
                  Inl e \<Rightarrow> (Inl e, ps, [])
                | Inr p' \<Rightarrow>
                    (let ps' = map (\<lambda>r. if post_id r = post_id p then p' else r) ps;
                         delete_tasks =
                           delete_task_if_changed del old_image_url (image_url p')
                           @ delete_task_if_changed del old_video_url (video_url p')
                     in case gather delete_tasks of
                          Some e \<Rightarrow> (Inl e, ps', delete_tasks)
                        | None \<Rightarrow> (Inr p', ps', delete_tasks))))"

text \<open>
  \<open>delete_post\<close>. Deleting the row deletes the comments of the post with it
  (\<open>cascade="all, delete-orphan"\<close>). The response \<open>Inr ()\<close> is 204 No Content.
\<close>

definition delete_post ::
  "(string \<Rightarrow> cleanup) \<Rightarrow> (int \<Rightarrow> exc option) \<Rightarrow> bool \<Rightarrow> store \<Rightarrow> user \<Rightarrow> int
     \<Rightarrow> (exc + unit) \<times> store \<times> cleanup list" where
  "delete_post del bind_id commit_ok db caller i =
     (case select_post bind_id (posts db) i of
        Inl e \<Rightarrow> (Inl e, db, [])
      | Inr None \<Rightarrow> (Inl (HTTPException 404 ''Post not found''), db, [])
      | Inr (Some p) \<Rightarrow>
          if owner_id p \<noteq> user_id caller
          then (Inl (HTTPException 403 ''Not authorized to delete this post''), db, [])
          else
            (let image_url_to_delete = image_url p;
                 video_url_to_delete = video_url p
             in if \<not> commit_ok then (Inl OperationalError, db, [])
                else
                  (let db' = \<lparr>posts = filter (\<lambda>r. post_id r \<noteq> post_id p) (posts db),
                              comments = filter (\<lambda>c. comment_post_id c \<noteq> post_id p) (comments db)\<rparr>;
                       delete_tasks =
                         delete_task_if_set del image_url_to_delete
                         @ delete_task_if_set del video_url_to_delete
                   in case gather delete_tasks of
                        Some e \<Rightarrow> (Inl e, db', delete_tasks)
                      | None \<Rightarrow> (Inr (), db', delete_tasks))))"



section \<open>Properties of email verification\<close>

lemma user_db_get_update:
  "user_db_get users i = Some u \<Longrightarrow>
   user_db_get (user_db_update_is_verified users u b) i = Some (u\<lparr>is_verified := b\<rparr>)"
proof (induction users)
  case Nil
  then show ?case by (simp add: user_db_get_def)
next
  case (Cons r rs)
  show ?case
  proof (cases "user_id r = i")
    case True
    with Cons.prems have "r = u" by (simp add: user_db_get_def)
    with True show ?thesis
      by (simp add: user_db_get_def user_db_update_is_verified_def)
  next
    case False
    with Cons.prems have rest: "user_db_get rs i = Some u" by (simp add: user_db_get_def)
    then have "user_id u = i" by (auto simp: user_db_get_def find_Some_iff)
    with False Cons.IH[OF rest] show ?thesis
      by (simp add: user_db_get_def user_db_update_is_verified_def)
  qed
qed

lemma verify_email_get_found:
  assumes "jwt_decode token = Inr c" "sub c = Some s" "s \<noteq> []" "UUID s = Some i"
    and "user_db_get users i = Some u"
  shows "verify_email_get jwt_decode UUID users token =
           (if is_verified u then (AlreadyVerified (email u), users, [])
            else (EmailVerified (email u), user_db_update_is_verified users u True,
                  [Update_is_verified (user_id u) True]))"
  using assms by (simp add: verify_email_get_def verify_email_try_def)

lemma verify_email_get_raised:
  "jwt_decode token = Inl e \<Longrightarrow>
   verify_email_get jwt_decode UUID users token = (verify_email_except e, users, [])"
  by (simp add: verify_email_get_def verify_email_try_def)

text \<open>
  Claim C1. A token that decodes to the id of a stored user is redeemed. When the user
  is already verified the page is the "Already Verified" one, the users table is
  returned as it was and no write is made. Whatever the first redemption did, a second
  redemption of the same token (decoding to the same claims) on the table the first one
  left gives the "Already Verified" page, leaves the table as it is and makes no write.
\<close>

theorem verify_email_get_idempotent:
  assumes "d1 token = Inr c" "d2 token = Inr c" "sub c = Some s" "s \<noteq> []" "UUID s = Some i"
    and "user_db_get users i = Some u"
  shows "(is_verified u \<longrightarrow>
            verify_email_get d1 UUID users token = (AlreadyVerified (email u), users, []))
       \<and> (case verify_email_get d1 UUID users token of (pg, users', w) \<Rightarrow>
            verify_email_get d2 UUID users' token = (AlreadyVerified (email u), users', []))"
proof (cases "is_verified u")
  case True
  with assms show ?thesis by (simp add: verify_email_get_found)
next
  case False
  let ?users' = "user_db_update_is_verified users u True"
  have first: "verify_email_get d1 UUID users token =
      (EmailVerified (email u), ?users', [Update_is_verified (user_id u) True])"
    using assms False by (simp add: verify_email_get_found)
  have "user_db_get ?users' i = Some (u\<lparr>is_verified := True\<rparr>)"
    using assms(6) by (rule user_db_get_update)
  then have "verify_email_get d2 UUID ?users' token = (AlreadyVerified (email u), ?users', [])"
    using assms(2-5) by (simp add: verify_email_get_found)
  with first False show ?thesis by simp
qed

theorem verify_email_get_idempotent_witness:
  "verify_email_get
     (\<lambda>t. if t = ''tok'' then Inr \<lparr>sub = Some ''u1'', aud = [''fastapi-users:verify''], exp = 100\<rparr>
          else Inl DecodeError)
     (\<lambda>s. if s = ''u1'' then Some 1 else None)
     [\<lparr>user_id = 1, email = ''a@x.org'', hashed_password = ''h'', is_active = True,
       is_superuser = False, is_verified = False, full_name = None\<rparr>] ''tok''
   = (EmailVerified ''a@x.org'',
      [\<lparr>user_id = 1, email = ''a@x.org'', hashed_password = ''h'', is_active = True,
       is_superuser = False, is_verified = True, full_name = None\<rparr>],
      [Update_is_verified 1 True])
  \<and> verify_email_get
     (\<lambda>t. if t = ''tok'' then Inr \<lparr>sub = Some ''u1'', aud = [''fastapi-users:verify''], exp = 100\<rparr>
          else Inl DecodeError)
     (\<lambda>s. if s = ''u1'' then Some 1 else None)
     [\<lparr>user_id = 1, email = ''a@x.org'', hashed_password = ''h'', is_active = True,
       is_superuser = False, is_verified = True, full_name = None\<rparr>] ''tok''
   = (AlreadyVerified ''a@x.org'',
      [\<lparr>user_id = 1, email = ''a@x.org'', hashed_password = ''h'', is_active = True,
       is_superuser = False, is_verified = True, full_name = None\<rparr>], [])"
  using verify_email_get_idempotent [of
     "\<lambda>t. if t = ''tok'' then Inr \<lparr>sub = Some ''u1'', aud = [''fastapi-users:verify''], exp = 100\<rparr>
          else Inl DecodeError" "''tok''"
     "\<lparr>sub = Some ''u1'', aud = [''fastapi-users:verify''], exp = 100\<rparr>"
     "\<lambda>t. if t = ''tok'' then Inr \<lparr>sub = Some ''u1'', aud = [''fastapi-users:verify''], exp = 100\<rparr>
          else Inl DecodeError" "''u1''"
     "\<lambda>s. if s = ''u1'' then Some 1 else None" 1
     "[\<lparr>user_id = 1, email = ''a@x.org'', hashed_password = ''h'', is_active = True,
       is_superuser = False, is_verified = False, full_name = None\<rparr>]"
     "\<lparr>user_id = 1, email = ''a@x.org'', hashed_password = ''h'', is_active = True,
       is_superuser = False, is_verified = False, full_name = None\<rparr>"]
  by (simp add: user_db_get_def verify_email_get_def verify_email_try_def
        user_db_update_is_verified_def)

lemma verify_email_get_user_absent:
  assumes "jwt_decode token = Inr c" "sub c = Some s" "s \<noteq> []" "UUID s = Some i"
    and "user_db_get users i = None"
  shows "verify_email_get jwt_decode UUID users token =
           (VerificationFailed (HTTPException 400 ''User not found''), users, [])"
  using assms
  by (simp add: verify_email_get_def verify_email_try_def verify_email_except_def)

text \<open>
  Claim C6, as the code has it. A token that decodes, whose subject is the id of no
  stored user, is answered with the page "Verification Failed": the \<open>HTTPException\<close>
  "User not found" raised at the lookup is caught by the \<open>except Exception\<close> clause.
  The page is not the "Invalid Token" page that a malformed token gets; the table is
  left as it is and nothing is written.
\<close>

theorem verify_email_get_unknown_user:
  assumes "jwt_decode token = Inr c" "sub c = Some s" "s \<noteq> []" "UUID s = Some i"
    and "user_db_get users i = None"
  shows "verify_email_get jwt_decode UUID users token =
           (VerificationFailed (HTTPException 400 ''User not found''), users, [])
       \<and> heading (fst (verify_email_get jwt_decode UUID users token)) = ''Verification Failed''
       \<and> fst (verify_email_get jwt_decode UUID users token) \<noteq> InvalidToken"
  using assms by (simp add: verify_email_get_user_absent)

theorem verify_email_get_unknown_user_witness:
  "verify_email_get
     (\<lambda>t. if t = ''tok'' then Inr \<lparr>sub = Some ''u2'', aud = [''fastapi-users:verify''], exp = 100\<rparr>
          else Inl DecodeError)
     (\<lambda>s. if s = ''u2'' then Some 2 else None)
     [\<lparr>user_id = 1, email = ''a@x.org'', hashed_password = ''h'', is_active = True,
       is_superuser = False, is_verified = False, full_name = None\<rparr>] ''tok''
   = (VerificationFailed (HTTPException 400 ''User not found''),
      [\<lparr>user_id = 1, email = ''a@x.org'', hashed_password = ''h'', is_active = True,
       is_superuser = False, is_verified = False, full_name = None\<rparr>], [])"
  using verify_email_get_unknown_user [of
     "\<lambda>t. if t = ''tok'' then Inr \<lparr>sub = Some ''u2'', aud = [''fastapi-users:verify''], exp = 100\<rparr>
          else Inl DecodeError" "''tok''"
     "\<lparr>sub = Some ''u2'', aud = [''fastapi-users:verify''], exp = 100\<rparr>" "''u2''"
     "\<lambda>s. if s = ''u2'' then Some 2 else None" 2
     "[\<lparr>user_id = 1, email = ''a@x.org'', hashed_password = ''h'', is_active = True,
       is_superuser = False, is_verified = False, full_name = None\<rparr>]"]
  by (simp add: user_db_get_def)

text \<open>
  Such a token redeemed on an empty table, and a malformed token beside it: the pages
  are "Verification Failed" and "Invalid Token", two different outcomes.
\<close>

theorem verify_email_get_unknown_user_counterexample:
  "fst (verify_email_get
     (\<lambda>t. if t = ''tok'' then Inr \<lparr>sub = Some ''u1'', aud = [''fastapi-users:verify''], exp = 100\<rparr>
          else Inl DecodeError)
     (\<lambda>s. if s = ''u1'' then Some 1 else None) [] ''tok'')
   = VerificationFailed (HTTPException 400 ''User not found'')
  \<and> fst (verify_email_get
     (\<lambda>t. if t = ''tok'' then Inr \<lparr>sub = Some ''u1'', aud = [''fastapi-users:verify''], exp = 100\<rparr>
          else Inl DecodeError)
     (\<lambda>s. if s = ''u1'' then Some 1 else None) [] ''garbage'')
   = InvalidToken
  \<and> VerificationFailed (HTTPException 400 ''User not found'') \<noteq> InvalidToken"
  by (simp add: verify_email_get_def verify_email_try_def verify_email_except_def user_db_get_def)

lemma verify_email_try_raises:
  "verify_email_try jwt_decode UUID users token = Inl e \<Longrightarrow>
   jwt_decode token = Inl e \<or> e = ValueError \<or> (\<exists>d. e = HTTPException 400 d)"
  by (auto simp: verify_email_try_def split: sum.splits option.splits if_splits)

lemma verify_email_try_page:
  "verify_email_try jwt_decode UUID users token = Inr (pg, r) \<Longrightarrow>
   (\<exists>a. pg = EmailVerified a \<or> pg = AlreadyVerified a)"
  by (auto simp: verify_email_try_def split: sum.splits option.splits if_splits)

text \<open>
  Claim C7. When decoding raises \<open>ExpiredSignatureError\<close> the page is "Token Expired";
  when it raises for a bad signature (\<open>InvalidSignatureError\<close>), an unparseable token
  (\<open>DecodeError\<close>) or a wrong audience (\<open>InvalidAudienceError\<close>) the page is
  "Invalid Token". For every token, the "Token Expired" page is returned exactly when
  decoding raised \<open>ExpiredSignatureError\<close>, and the "Invalid Token" page exactly when
  it raised another \<open>InvalidTokenError\<close>; the two pages have different headings.
\<close>

theorem verify_email_get_expired_or_invalid:
  "(jwt_decode token = Inl ExpiredSignatureError \<longrightarrow>
      verify_email_get jwt_decode UUID users token = (TokenExpired, users, []))
   \<and> (jwt_decode token = Inl e \<and> e \<in> {InvalidSignatureError, DecodeError, InvalidAudienceError} \<longrightarrow>
      verify_email_get jwt_decode UUID users token = (InvalidToken, users, []))
   \<and> (fst (verify_email_get jwt_decode UUID users token) = TokenExpired
        \<longleftrightarrow> jwt_decode token = Inl ExpiredSignatureError)
   \<and> (fst (verify_email_get jwt_decode UUID users token) = InvalidToken
        \<longleftrightarrow> (\<exists>x. jwt_decode token = Inl x \<and> is_InvalidTokenError x \<and> x \<noteq> ExpiredSignatureError))
   \<and> heading TokenExpired \<noteq> heading InvalidToken"
proof -
  have a: "jwt_decode token = Inl ExpiredSignatureError \<longrightarrow>
      verify_email_get jwt_decode UUID users token = (TokenExpired, users, [])"
    by (simp add: verify_email_get_raised verify_email_except_def)
  have b: "jwt_decode token = Inl e \<and> e \<in> {InvalidSignatureError, DecodeError, InvalidAudienceError} \<longrightarrow>
      verify_email_get jwt_decode UUID users token = (InvalidToken, users, [])"
    by (auto simp: verify_email_get_raised verify_email_except_def)
  have c: "fst (verify_email_get jwt_decode UUID users token) = TokenExpired
        \<longleftrightarrow> jwt_decode token = Inl ExpiredSignatureError"
  proof (cases "verify_email_try jwt_decode UUID users token")
    case (Inl x)
    from verify_email_try_raises[OF Inl] Inl show ?thesis
      by (auto simp: verify_email_get_def verify_email_except_def verify_email_try_def
               split: if_splits)
  next
    case (Inr r)
    obtain pg rest where r: "r = (pg, rest)" by (cases r)
    from verify_email_try_page[OF Inr[unfolded r]] Inr r show ?thesis
      by (auto simp: verify_email_get_def verify_email_try_def split: sum.splits)
  qed
  have d: "fst (verify_email_get jwt_decode UUID users token) = InvalidToken
        \<longleftrightarrow> (\<exists>x. jwt_decode token = Inl x \<and> is_InvalidTokenError x \<and> x \<noteq> ExpiredSignatureError)"
  proof (cases "verify_email_try jwt_decode UUID users token")
    case (Inl x)
    from verify_email_try_raises[OF Inl] Inl show ?thesis
      by (auto simp: verify_email_get_def verify_email_except_def verify_email_try_def
               split: if_splits)
  next
    case (Inr r)
    obtain pg rest where r: "r = (pg, rest)" by (cases r)
    from verify_email_try_page[OF Inr[unfolded r]] Inr r show ?thesis
      by (auto simp: verify_email_get_def verify_email_try_def split: sum.splits)
  qed
  have e: "heading TokenExpired \<noteq> heading InvalidToken" by simp
  from a b c d e show ?thesis by blast
qed

theorem verify_email_get_expired_or_invalid_witness:
  "verify_email_get
     (\<lambda>t. if t = ''old'' then Inl ExpiredSignatureError else Inl InvalidAudienceError)
     (\<lambda>s. None) [] ''old'' = (TokenExpired, [], [])
   \<and> verify_email_get
     (\<lambda>t. if t = ''old'' then Inl ExpiredSignatureError else Inl InvalidAudienceError)
     (\<lambda>s. None) [] ''other'' = (InvalidToken, [], [])"
  using verify_email_get_expired_or_invalid [where
     jwt_decode = "\<lambda>t. if t = ''old'' then Inl ExpiredSignatureError else Inl InvalidAudienceError"
     and token = "''old''" and UUID = "\<lambda>s. None" and users = "[]" and e = ExpiredSignatureError]
    verify_email_get_expired_or_invalid [where
     jwt_decode = "\<lambda>t. if t = ''old'' then Inl ExpiredSignatureError else Inl InvalidAudienceError"
     and token = "''other''" and UUID = "\<lambda>s. None" and users = "[]" and e = InvalidAudienceError]
  by simp

section \<open>Properties of login\<close>

lemma login_failure_shape:
  "login um sw env cr = Inl e \<Longrightarrow> e = HTTPException 400 ''LOGIN_BAD_CREDENTIALS''"
  by (auto simp: login_def split: option.splits if_splits)

text \<open>
  Claim C3. A login with an unknown email, with a wrong password for a known email, and
  with the right password of a user who is not active fails with the same exception,
  \<open>HTTPException\<close> 400 with the detail \<open>LOGIN_BAD_CREDENTIALS\<close>; and any two failing
  logins, whatever the store, the credentials and the settings, fail with equal
  exceptions, so the response tells the caller nothing about which case it was.
\<close>

theorem login_fails_uniformly:
  "(get_by_email (username cr) = None \<longrightarrow>
      login (UserManager_authenticate verify get_by_email) sw env cr
        = Inl (HTTPException 400 ''LOGIN_BAD_CREDENTIALS''))
   \<and> (get_by_email (username cr) = Some u \<and> \<not> verify (password cr) (hashed_password u) \<longrightarrow>
      login (UserManager_authenticate verify get_by_email) sw env cr
        = Inl (HTTPException 400 ''LOGIN_BAD_CREDENTIALS''))
   \<and> (get_by_email (username cr) = Some u \<and> verify (password cr) (hashed_password u)
        \<and> \<not> is_active u \<longrightarrow>
      login (UserManager_authenticate verify get_by_email) sw env cr
        = Inl (HTTPException 400 ''LOGIN_BAD_CREDENTIALS''))
   \<and> (login um1 sw1 env1 cr1 = Inl e1 \<and> login um2 sw2 env2 cr2 = Inl e2 \<longrightarrow> e1 = e2)"
proof -
  have "login um1 sw1 env1 cr1 = Inl e1 \<and> login um2 sw2 env2 cr2 = Inl e2 \<longrightarrow> e1 = e2"
    using login_failure_shape by blast
  then show ?thesis
    by (simp add: login_def UserManager_authenticate_def)
qed

theorem login_fails_uniformly_witness:
  "login (UserManager_authenticate (\<lambda>p h. h = ''hash:'' @ p)
            (\<lambda>e. if e = ''b@x.org'' then
                    Some \<lparr>user_id = 2, email = ''b@x.org'', hashed_password = ''hash:pw'',
                          is_active = False, is_superuser = False, is_verified = True,
                          full_name = None\<rparr>
                  else None))
         (\<lambda>l u. ''t'') ''production'' \<lparr>username = ''nobody@x.org'', password = ''pw''\<rparr>
     = Inl (HTTPException 400 ''LOGIN_BAD_CREDENTIALS'')
   \<and> login (UserManager_authenticate (\<lambda>p h. h = ''hash:'' @ p)
            (\<lambda>e. if e = ''b@x.org'' then
                    Some \<lparr>user_id = 2, email = ''b@x.org'', hashed_password = ''hash:pw'',
                          is_active = False, is_superuser = False, is_verified = True,
                          full_name = None\<rparr>
                  else None))
         (\<lambda>l u. ''t'') ''production'' \<lparr>username = ''b@x.org'', password = ''wrong''\<rparr>
     = Inl (HTTPException 400 ''LOGIN_BAD_CREDENTIALS'')
   \<and> login (UserManager_authenticate (\<lambda>p h. h = ''hash:'' @ p)
            (\<lambda>e. if e = ''b@x.org'' then
                    Some \<lparr>user_id = 2, email = ''b@x.org'', hashed_password = ''hash:pw'',
                          is_active = False, is_superuser = False, is_verified = True,
                          full_name = None\<rparr>
                  else None))
         (\<lambda>l u. ''t'') ''production'' \<lparr>username = ''b@x.org'', password = ''pw''\<rparr>
     = Inl (HTTPException 400 ''LOGIN_BAD_CREDENTIALS'')"
  using login_fails_uniformly [where verify = "\<lambda>p h. h = ''hash:'' @ p"
     and get_by_email = "\<lambda>e. if e = ''b@x.org'' then
                    Some \<lparr>user_id = 2, email = ''b@x.org'', hashed_password = ''hash:pw'',
                          is_active = False, is_superuser = False, is_verified = True,
                          full_name = None\<rparr>
                  else None"
     and sw = "\<lambda>l u. ''t''" and env = "''production''"
     and cr = "\<lparr>username = ''nobody@x.org'', password = ''pw''\<rparr>"]
   login_fails_uniformly [where verify = "\<lambda>p h. h = ''hash:'' @ p"
     and get_by_email = "\<lambda>e. if e = ''b@x.org'' then
                    Some \<lparr>user_id = 2, email = ''b@x.org'', hashed_password = ''hash:pw'',
                          is_active = False, is_superuser = False, is_verified = True,
                          full_name = None\<rparr>
                  else None"
     and sw = "\<lambda>l u. ''t''" and env = "''production''"
     and cr = "\<lparr>username = ''b@x.org'', password = ''wrong''\<rparr>"
     and u = "\<lparr>user_id = 2, email = ''b@x.org'', hashed_password = ''hash:pw'',
                          is_active = False, is_superuser = False, is_verified = True,
                          full_name = None\<rparr>"]
   login_fails_uniformly [where verify = "\<lambda>p h. h = ''hash:'' @ p"
     and get_by_email = "\<lambda>e. if e = ''b@x.org'' then
                    Some \<lparr>user_id = 2, email = ''b@x.org'', hashed_password = ''hash:pw'',
                          is_active = False, is_superuser = False, is_verified = True,
                          full_name = None\<rparr>
                  else None"
     and sw = "\<lambda>l u. ''t''" and env = "''production''"
     and cr = "\<lparr>username = ''b@x.org'', password = ''pw''\<rparr>"
     and u = "\<lparr>user_id = 2, email = ''b@x.org'', hashed_password = ''hash:pw'',
                          is_active = False, is_superuser = False, is_verified = True,
                          full_name = None\<rparr>"]
  by simp

section \<open>Properties of the admin session\<close>

text \<open>
  Claim C9. \<open>authenticate\<close> answers true only when the session holds a user id, the
  store finds the user of that id, and the user is active and a superuser; the session
  is then left as it is. When the session holds a user id and the store finds no such
  user, or the user is not active or not a superuser, the answer is false and the
  session is cleared in the same call. A session that holds no user id is answered
  false and left as it is.
\<close>

theorem admin_authenticate_revalidates:
  "(fst (AdminAuthBackend_authenticate select_user s) = Inr True \<longrightarrow>
      (\<exists>uid u. s ''user_id'' = Some uid \<and> select_user uid = Inr (Some u)
               \<and> is_active u \<and> is_superuser u)
      \<and> snd (AdminAuthBackend_authenticate select_user s) = s)
   \<and> (s ''user_id'' = Some uid \<and> uid \<noteq> [] \<and> select_user uid = Inr r
        \<and> (r = None \<or> (\<exists>u. r = Some u \<and> (\<not> is_active u \<or> \<not> is_superuser u))) \<longrightarrow>
      AdminAuthBackend_authenticate select_user s = (Inr False, Map.empty))
   \<and> (s ''user_id'' = None \<or> s ''user_id'' = Some [] \<longrightarrow>
      AdminAuthBackend_authenticate select_user s = (Inr False, s))"
  by (auto simp: AdminAuthBackend_authenticate_def split: option.splits sum.splits if_splits)

theorem admin_authenticate_revalidates_witness:
  "AdminAuthBackend_authenticate
     (\<lambda>i. if i = ''u1'' then
             Inr (Some \<lparr>user_id = 1, email = ''root@x.org'', hashed_password = ''h'',
                        is_active = True, is_superuser = False, is_verified = True,
                        full_name = None\<rparr>)
           else Inr None)
     [''user_id'' \<mapsto> ''u1'', ''user_email'' \<mapsto> ''root@x.org'']
   = (Inr False, Map.empty)
   \<and> AdminAuthBackend_authenticate
     (\<lambda>i. if i = ''u1'' then
             Inr (Some \<lparr>user_id = 1, email = ''root@x.org'', hashed_password = ''h'',
                        is_active = True, is_superuser = True, is_verified = True,
                        full_name = None\<rparr>)
           else Inr None)
     [''user_id'' \<mapsto> ''u1'', ''user_email'' \<mapsto> ''root@x.org'']
   = (Inr True, [''user_id'' \<mapsto> ''u1'', ''user_email'' \<mapsto> ''root@x.org''])"
  using admin_authenticate_revalidates [where
     select_user = "\<lambda>i. if i = ''u1'' then
             Inr (Some \<lparr>user_id = 1, email = ''root@x.org'', hashed_password = ''h'',
                        is_active = True, is_superuser = False, is_verified = True,
                        full_name = None\<rparr>)
           else Inr None"
     and s = "[''user_id'' \<mapsto> ''u1'', ''user_email'' \<mapsto> ''root@x.org'']"
     and uid = "''u1''"
     and r = "Some \<lparr>user_id = 1, email = ''root@x.org'', hashed_password = ''h'',
                        is_active = True, is_superuser = False, is_verified = True,
                        full_name = None\<rparr>"]
  by (simp add: AdminAuthBackend_authenticate_def)

section \<open>Properties of media cleanup\<close>

lemma delete_file_from_imagekit_raised:
  "raised (delete_file_from_imagekit ep ik up url) = None"
  by (auto simp: delete_file_from_imagekit_def split: option.splits prod.splits)

lemma delete_file_from_imagekit_file_url:
  "file_url (delete_file_from_imagekit ep ik up url) = url"
  by (auto simp: delete_file_from_imagekit_def split: option.splits prod.splits)

text \<open>
  Claim C10. For a URL that is empty or does not start with the configured ImageKit
  endpoint the routine makes no call to the media store, neither lookup nor deletion,
  logs one warning and returns without raising.
\<close>

theorem delete_file_skips_foreign_urls:
  "url = [] \<or> \<not> prefix ep url \<Longrightarrow>
   calls (delete_file_from_imagekit ep ik up url) = []
   \<and> raised (delete_file_from_imagekit ep ik up url) = None
   \<and> (\<exists>m. logs (delete_file_from_imagekit ep ik up url) = [LogWarning m])"
  by (auto simp: delete_file_from_imagekit_def)

theorem delete_file_skips_foreign_urls_witness:
  "calls (delete_file_from_imagekit ''https://ik.imagekit.io/demo''
      (Some \<lparr>list_files = (\<lambda>p. Inr [''f1'']), delete_file = (\<lambda>i. None)\<rparr>)
      (\<lambda>u. Inr (drop 22 u)) ''https://example.com/cat.jpg'') = []
   \<and> calls (delete_file_from_imagekit ''https://ik.imagekit.io/demo''
      (Some \<lparr>list_files = (\<lambda>p. Inr [''f1'']), delete_file = (\<lambda>i. None)\<rparr>)
      (\<lambda>u. Inr (drop 22 u)) ''https://ik.imagekit.io/demo/cat.jpg'')
     = [ListFiles ''/demo/cat.jpg'', DeleteFile ''f1'']"
  using delete_file_skips_foreign_urls [where ep = "''https://ik.imagekit.io/demo''"
      and url = "''https://example.com/cat.jpg''"
      and ik = "Some \<lparr>list_files = (\<lambda>p. Inr [''f1'']), delete_file = (\<lambda>i. None)\<rparr>"
      and up = "\<lambda>u. Inr (drop 22 u)"]
  by (simp add: delete_file_from_imagekit_def delete_file_try_def)

section \<open>Properties of posts and comments\<close>

lemma gather_none:
  assumes "\<And>t. t \<in> set ts \<Longrightarrow> raised t = None"
  shows "gather ts = None"
proof -
  have "filter (\<lambda>t. raised t \<noteq> None) ts = []"
    using assms by (auto simp: filter_empty_conv)
  then show ?thesis by (simp add: gather_def)
qed

lemma delete_task_if_changed_raised:
  "t \<in> set (delete_task_if_changed (delete_file_from_imagekit ep ik up) old new) \<Longrightarrow> raised t = None"
  by (auto simp: delete_task_if_changed_def delete_file_from_imagekit_raised
           split: option.splits if_splits)

lemma delete_task_if_set_raised:
  "t \<in> set (delete_task_if_set (delete_file_from_imagekit ep ik up) url) \<Longrightarrow> raised t = None"
  by (auto simp: delete_task_if_set_def delete_file_from_imagekit_raised
           split: option.splits if_splits)

lemma gather_update_tasks:
  "gather (delete_task_if_changed (delete_file_from_imagekit ep ik up) a b
           @ delete_task_if_changed (delete_file_from_imagekit ep ik up) c d) = None"
  by (rule gather_none) (auto dest: delete_task_if_changed_raised)

lemma gather_delete_tasks:
  "gather (delete_task_if_set (delete_file_from_imagekit ep ik up) a
           @ delete_task_if_set (delete_file_from_imagekit ep ik up) c) = None"
  by (rule gather_none) (auto dest: delete_task_if_set_raised)

lemma update_post_owner:
  assumes "select_post bind_id ps i = Inr (Some p)" "owner_id p = user_id caller"
    and "commit_post_update ok p u = Inr p'"
  shows "update_post (delete_file_from_imagekit ep ik up) bind_id ok ps caller i u =
     (Inr p', map (\<lambda>r. if post_id r = post_id p then p' else r) ps,
      delete_task_if_changed (delete_file_from_imagekit ep ik up)
         (if upd_image_url u \<noteq> None then image_url p else None) (image_url p')
      @ delete_task_if_changed (delete_file_from_imagekit ep ik up)
         (if upd_video_url u \<noteq> None then video_url p else None) (video_url p'))"
  using assms by (simp add: update_post_def Let_def gather_update_tasks)

lemma update_post_commit_fails:
  assumes "select_post bind_id ps i = Inr (Some p)" "owner_id p = user_id caller"
    and "commit_post_update ok p u = Inl e"
  shows "update_post del bind_id ok ps caller i u = (Inl e, ps, [])"
  using assms by (simp add: update_post_def Let_def)

lemma delete_post_owner:
  assumes "select_post bind_id (posts db) i = Inr (Some p)" "owner_id p = user_id caller" "ok"
  shows "delete_post (delete_file_from_imagekit ep ik up) bind_id ok db caller i =
     (Inr (),
      \<lparr>posts = filter (\<lambda>r. post_id r \<noteq> post_id p) (posts db),
       comments = filter (\<lambda>c. comment_post_id c \<noteq> post_id p) (comments db)\<rparr>,
      delete_task_if_set (delete_file_from_imagekit ep ik up) (image_url p)
      @ delete_task_if_set (delete_file_from_imagekit ep ik up) (video_url p))"
  using assms by (simp add: delete_post_def Let_def gather_delete_tasks)











lemma file_url_delete_task_if_changed:
  "map file_url (delete_task_if_changed (delete_file_from_imagekit ep ik up) old new) =
     (case old of None \<Rightarrow> [] | Some s \<Rightarrow> if s \<noteq> [] \<and> Some s \<noteq> new then [s] else [])"
  by (simp add: delete_task_if_changed_def delete_file_from_imagekit_file_url split: option.splits)

lemma file_url_delete_task_if_set:
  "map file_url (delete_task_if_set (delete_file_from_imagekit ep ik up) url) =
     (case url of None \<Rightarrow> [] | Some s \<Rightarrow> if s \<noteq> [] then [s] else [])"
  by (simp add: delete_task_if_set_def delete_file_from_imagekit_file_url split: option.splits)

lemma commit_post_update_urls:
  "commit_post_update ok p u = Inr p' \<Longrightarrow>
     image_url p' = setattr_field (upd_image_url u) (image_url p)
     \<and> video_url p' = setattr_field (upd_video_url u) (video_url p)"
  by (auto simp: commit_post_update_def split: option.splits if_splits)

text \<open>
  Claim C4, as the code has it. The owner updates a post. After a commit that succeeds,
  the deletion tasks are, in this order: one for the old image URL when the payload
  sets \<open>image_url\<close> and the old value is not null, not the empty string and not equal
  to the new value; and one for the old video URL under the same condition on
  \<open>video_url\<close>. So a field the payload leaves out, a field set to the value it has
  and a field whose old value is null or empty give no task, and the task of a field is
  never against the new value of that field. When the commit fails no task runs.
\<close>

theorem update_post_cleanup:
  assumes "select_post bind_id ps i = Inr (Some p)" "owner_id p = user_id caller"
  shows "(commit_post_update ok p u = Inr p' \<longrightarrow>
            map file_url (snd (snd (update_post (delete_file_from_imagekit ep ik up) bind_id ok ps caller i u)))
            = (case upd_image_url u of
                 None \<Rightarrow> []
               | Some new \<Rightarrow>
                   (case image_url p of
                      None \<Rightarrow> []
                    | Some old \<Rightarrow> if old \<noteq> [] \<and> Some old \<noteq> new then [old] else []))
            @ (case upd_video_url u of
                 None \<Rightarrow> []
               | Some new \<Rightarrow>
                   (case video_url p of
                      None \<Rightarrow> []
                    | Some old \<Rightarrow> if old \<noteq> [] \<and> Some old \<noteq> new then [old] else [])))
       \<and> (commit_post_update ok p u = Inl e \<longrightarrow>
            snd (snd (update_post (delete_file_from_imagekit ep ik up) bind_id ok ps caller i u)) = [])"
proof (intro conjI impI)
  assume c: "commit_post_update ok p u = Inr p'"
  note urls = commit_post_update_urls[OF c]
  have img: "map file_url (delete_task_if_changed (delete_file_from_imagekit ep ik up)
         (if upd_image_url u \<noteq> None then image_url p else None) (image_url p'))
       = (case upd_image_url u of
                 None \<Rightarrow> []
               | Some new \<Rightarrow>
                   (case image_url p of
                      None \<Rightarrow> []
                    | Some old \<Rightarrow> if old \<noteq> [] \<and> Some old \<noteq> new then [old] else []))"
    using urls
    by (simp add: file_url_delete_task_if_changed setattr_field_def split: option.splits)
  have vid: "map file_url (delete_task_if_changed (delete_file_from_imagekit ep ik up)
         (if upd_video_url u \<noteq> None then video_url p else None) (video_url p'))
       = (case upd_video_url u of
                 None \<Rightarrow> []
               | Some new \<Rightarrow>
                   (case video_url p of
                      None \<Rightarrow> []
                    | Some old \<Rightarrow> if old \<noteq> [] \<and> Some old \<noteq> new then [old] else []))"
    using urls
    by (simp add: file_url_delete_task_if_changed setattr_field_def split: option.splits)
  show "map file_url (snd (snd (update_post (delete_file_from_imagekit ep ik up) bind_id ok ps caller i u)))
            = (case upd_image_url u of
                 None \<Rightarrow> []
               | Some new \<Rightarrow>
                   (case image_url p of
                      None \<Rightarrow> []
                    | Some old \<Rightarrow> if old \<noteq> [] \<and> Some old \<noteq> new then [old] else []))
            @ (case upd_video_url u of
                 None \<Rightarrow> []
               | Some new \<Rightarrow>
                   (case video_url p of
                      None \<Rightarrow> []
                    | Some old \<Rightarrow> if old \<noteq> [] \<and> Some old \<noteq> new then [old] else []))"
    unfolding update_post_owner[OF assms c] using img vid by simp
next
  assume "commit_post_update ok p u = Inl e"
  then show "snd (snd (update_post (delete_file_from_imagekit ep ik up) bind_id ok ps caller i u)) = []"
    using assms by (simp add: update_post_commit_fails)
qed

theorem update_post_cleanup_witness:
  "map file_url (snd (snd (update_post
      (delete_file_from_imagekit ''https://ik.imagekit.io/demo''
         (Some \<lparr>list_files = (\<lambda>p. Inr [p]), delete_file = (\<lambda>i. None)\<rparr>) (\<lambda>u. Inr (drop 22 u)))
      (\<lambda>i. if - 9223372036854775808 \<le> i \<and> i \<le> 9223372036854775807 then None else Some OverflowError)
      True
      [\<lparr>post_id = 1, title = ''t'', content = None,
        image_url = Some ''https://ik.imagekit.io/demo/a.jpg'', video_url = None, owner_id = 7\<rparr>]
      \<lparr>user_id = 7, email = ''a@x.org'', hashed_password = ''h'', is_active = True,
       is_superuser = False, is_verified = True, full_name = None\<rparr>
      1
      \<lparr>upd_title = None, upd_content = None,
       upd_image_url = Some (Some ''https://ik.imagekit.io/demo/b.jpg''), upd_video_url = None\<rparr>)))
   = [''https://ik.imagekit.io/demo/a.jpg'']"
  using update_post_cleanup [where ok = True
     and bind_id = "\<lambda>i. if - 9223372036854775808 \<le> i \<and> i \<le> 9223372036854775807 then None else Some OverflowError"
     and ps = "[\<lparr>post_id = 1, title = ''t'', content = None,
        image_url = Some ''https://ik.imagekit.io/demo/a.jpg'', video_url = None, owner_id = 7\<rparr>]"
     and i = 1
     and p = "\<lparr>post_id = 1, title = ''t'', content = None,
        image_url = Some ''https://ik.imagekit.io/demo/a.jpg'', video_url = None, owner_id = 7\<rparr>"
     and caller = "\<lparr>user_id = 7, email = ''a@x.org'', hashed_password = ''h'', is_active = True,
       is_superuser = False, is_verified = True, full_name = None\<rparr>"
     and u = "\<lparr>upd_title = None, upd_content = None,
       upd_image_url = Some (Some ''https://ik.imagekit.io/demo/b.jpg''), upd_video_url = None\<rparr>"
     and p' = "\<lparr>post_id = 1, title = ''t'', content = None,
        image_url = Some ''https://ik.imagekit.io/demo/b.jpg'', video_url = None, owner_id = 7\<rparr>"
     and ep = "''https://ik.imagekit.io/demo''"
     and ik = "Some \<lparr>list_files = (\<lambda>p. Inr [p]), delete_file = (\<lambda>i. None)\<rparr>"
     and up = "\<lambda>u. Inr (drop 22 u)"]
  by (simp add: select_post_def commit_post_update_def setattr_field_def)

text \<open>
  Two updates by the owner on which the claim as the spec words it fails. In the first
  the old image URL is the empty string, which is not null, and the new one differs: no
  deletion task runs. In the second the payload swaps the image and the video URL: a
  deletion runs against each old URL, and each of them is the new URL of the other field.
\<close>

theorem update_post_cleanup_counterexample:
  "map file_url (snd (snd (update_post
      (delete_file_from_imagekit ''https://ik.imagekit.io/demo''
         (Some \<lparr>list_files = (\<lambda>p. Inr [p]), delete_file = (\<lambda>i. None)\<rparr>) (\<lambda>u. Inr (drop 22 u)))
      (\<lambda>i. if - 9223372036854775808 \<le> i \<and> i \<le> 9223372036854775807 then None else Some OverflowError)
      True
      [\<lparr>post_id = 1, title = ''t'', content = None, image_url = Some [], video_url = None,
        owner_id = 7\<rparr>]
      \<lparr>user_id = 7, email = ''a@x.org'', hashed_password = ''h'', is_active = True,
       is_superuser = False, is_verified = True, full_name = None\<rparr>
      1
      \<lparr>upd_title = None, upd_content = None,
       upd_image_url = Some (Some ''https://ik.imagekit.io/demo/b.jpg''), upd_video_url = None\<rparr>)))
   = []
   \<and> update_post
      (delete_file_from_imagekit ''https://ik.imagekit.io/demo''
         (Some \<lparr>list_files = (\<lambda>p. Inr [p]), delete_file = (\<lambda>i. None)\<rparr>) (\<lambda>u. Inr (drop 22 u)))
      (\<lambda>i. if - 9223372036854775808 \<le> i \<and> i \<le> 9223372036854775807 then None else Some OverflowError)
      True
      [\<lparr>post_id = 1, title = ''t'', content = None,
        image_url = Some ''https://ik.imagekit.io/demo/a.jpg'',
        video_url = Some ''https://ik.imagekit.io/demo/b.mp4'', owner_id = 7\<rparr>]
      \<lparr>user_id = 7, email = ''a@x.org'', hashed_password = ''h'', is_active = True,
       is_superuser = False, is_verified = True, full_name = None\<rparr>
      1
      \<lparr>upd_title = None, upd_content = None,
       upd_image_url = Some (Some ''https://ik.imagekit.io/demo/b.mp4''),
       upd_video_url = Some (Some ''https://ik.imagekit.io/demo/a.jpg'')\<rparr>
   = (Inr \<lparr>post_id = 1, title = ''t'', content = None,
           image_url = Some ''https://ik.imagekit.io/demo/b.mp4'',
           video_url = Some ''https://ik.imagekit.io/demo/a.jpg'', owner_id = 7\<rparr>,
      [\<lparr>post_id = 1, title = ''t'', content = None,
        image_url = Some ''https://ik.imagekit.io/demo/b.mp4'',
        video_url = Some ''https://ik.imagekit.io/demo/a.jpg'', owner_id = 7\<rparr>],
      [\<lparr>file_url = ''https://ik.imagekit.io/demo/a.jpg'',
        calls = [ListFiles ''/demo/a.jpg'', DeleteFile ''/demo/a.jpg''],
        logs = [LogInfo ''Attempting to find file with path'', LogInfo ''Found file_id. Deleting...'',
                LogSuccess ''Successfully deleted file from ImageKit.''],
        raised = None\<rparr>,
       \<lparr>file_url = ''https://ik.imagekit.io/demo/b.mp4'',
        calls = [ListFiles ''/demo/b.mp4'', DeleteFile ''/demo/b.mp4''],
        logs = [LogInfo ''Attempting to find file with path'', LogInfo ''Found file_id. Deleting...'',
                LogSuccess ''Successfully deleted file from ImageKit.''],
        raised = None\<rparr>])"
  by (simp add: update_post_def Let_def select_post_def commit_post_update_def setattr_field_def
        delete_task_if_changed_def delete_file_from_imagekit_def delete_file_try_def gather_def)

lemma delete_file_from_imagekit_logged:
  "logs (delete_file_from_imagekit ep ik up url) \<noteq> []"
  by (auto simp: delete_file_from_imagekit_def delete_file_try_def
           split: option.splits prod.splits sum.splits list.splits)

lemma delete_file_client_unavailable:
  "delete_file_from_imagekit ep None up url =
     \<lparr>file_url = url, calls = [],
      logs = [LogWarning ''No file URL provided or ImageKit client not init.''], raised = None\<rparr>"
  by (simp add: delete_file_from_imagekit_def)

lemma delete_file_zero_matches:
  assumes "url \<noteq> []" "prefix ep url" "up url = Inr path" "list_files client path = Inr []"
  shows "delete_file_from_imagekit ep (Some client) up url =
     \<lparr>file_url = url, calls = [ListFiles path],
      logs = [LogInfo ''Attempting to find file with path'',
              LogWarning ''Could not find file at path in ImageKit to delete.''],
      raised = None\<rparr>"
  using assms by (simp add: delete_file_from_imagekit_def delete_file_try_def)

lemma delete_file_lookup_raises:
  assumes "url \<noteq> []" "prefix ep url" "up url = Inr path" "list_files client path = Inl e"
  shows "delete_file_from_imagekit ep (Some client) up url =
     \<lparr>file_url = url, calls = [ListFiles path],
      logs = [LogInfo ''Attempting to find file with path'',
              LogError ''Error deleting file from ImageKit'' e],
      raised = None\<rparr>"
  using assms by (simp add: delete_file_from_imagekit_def delete_file_try_def)

lemma delete_file_delete_raises:
  assumes "url \<noteq> []" "prefix ep url" "up url = Inr path"
    and "list_files client path = Inr (f # fs)" "delete_file client f = Some e"
  shows "delete_file_from_imagekit ep (Some client) up url =
     \<lparr>file_url = url, calls = [ListFiles path, DeleteFile f],
      logs = [LogInfo ''Attempting to find file with path'', LogInfo ''Found file_id. Deleting...'',
              LogError ''Error deleting file from ImageKit'' e],
      raised = None\<rparr>"
  using assms by (simp add: delete_file_from_imagekit_def delete_file_try_def)

text \<open>
  Claim C8, as the code has it. The owner deletes a post and the commit succeeds. The
  response is 204, the table no longer holds the post nor its comments, and the
  deletion tasks are, in this order, one for the image URL and one for the video URL
  the post had before it was deleted, each only when it is neither null nor the empty
  string. Response and table are the same whatever the ImageKit client is or does:
  every task returns without raising and leaves a line in the log. In particular, a
  missing client gives a warning and no call; a lookup that finds nothing gives a
  warning and no deletion; a lookup or a deletion that raises gives an error line.
\<close>

theorem delete_post_cleanup:
  assumes "select_post bind_id (posts db) i = Inr (Some p)" "owner_id p = user_id caller" "ok"
  shows "fst (delete_post (delete_file_from_imagekit ep ik up) bind_id ok db caller i) = Inr ()
       \<and> fst (snd (delete_post (delete_file_from_imagekit ep ik up) bind_id ok db caller i))
           = \<lparr>posts = filter (\<lambda>r. post_id r \<noteq> post_id p) (posts db),
              comments = filter (\<lambda>c. comment_post_id c \<noteq> post_id p) (comments db)\<rparr>
       \<and> map file_url (snd (snd (delete_post (delete_file_from_imagekit ep ik up) bind_id ok db caller i)))
           = (case image_url p of None \<Rightarrow> [] | Some s \<Rightarrow> if s \<noteq> [] then [s] else [])
             @ (case video_url p of None \<Rightarrow> [] | Some s \<Rightarrow> if s \<noteq> [] then [s] else [])
       \<and> (\<forall>t \<in> set (snd (snd (delete_post (delete_file_from_imagekit ep ik up) bind_id ok db caller i))).
             raised t = None \<and> logs t \<noteq> [])
       \<and> (\<forall>url. delete_file_from_imagekit ep None up url =
             \<lparr>file_url = url, calls = [],
              logs = [LogWarning ''No file URL provided or ImageKit client not init.''],
              raised = None\<rparr>)
       \<and> (\<forall>url client path. url \<noteq> [] \<and> prefix ep url \<and> up url = Inr path
             \<and> list_files client path = Inr [] \<longrightarrow>
             delete_file_from_imagekit ep (Some client) up url =
               \<lparr>file_url = url, calls = [ListFiles path],
                logs = [LogInfo ''Attempting to find file with path'',
                        LogWarning ''Could not find file at path in ImageKit to delete.''],
                raised = None\<rparr>)
       \<and> (\<forall>url client path e. url \<noteq> [] \<and> prefix ep url \<and> up url = Inr path
             \<and> list_files client path = Inl e \<longrightarrow>
             delete_file_from_imagekit ep (Some client) up url =
               \<lparr>file_url = url, calls = [ListFiles path],
                logs = [LogInfo ''Attempting to find file with path'',
                        LogError ''Error deleting file from ImageKit'' e],
                raised = None\<rparr>)
       \<and> (\<forall>url client path f fs e. url \<noteq> [] \<and> prefix ep url \<and> up url = Inr path
             \<and> list_files client path = Inr (f # fs) \<and> delete_file client f = Some e \<longrightarrow>
             delete_file_from_imagekit ep (Some client) up url =
               \<lparr>file_url = url, calls = [ListFiles path, DeleteFile f],
                logs = [LogInfo ''Attempting to find file with path'',
                        LogInfo ''Found file_id. Deleting...'',
                        LogError ''Error deleting file from ImageKit'' e],
                raised = None\<rparr>)"
proof -
  note eq = delete_post_owner[OF assms, of ep ik up]
  have a: "fst (delete_post (delete_file_from_imagekit ep ik up) bind_id ok db caller i) = Inr ()"
    by (simp add: eq)
  have b: "fst (snd (delete_post (delete_file_from_imagekit ep ik up) bind_id ok db caller i))
           = \<lparr>posts = filter (\<lambda>r. post_id r \<noteq> post_id p) (posts db),
              comments = filter (\<lambda>c. comment_post_id c \<noteq> post_id p) (comments db)\<rparr>"
    by (simp add: eq)
  have c: "map file_url (snd (snd (delete_post (delete_file_from_imagekit ep ik up) bind_id ok db caller i)))
           = (case image_url p of None \<Rightarrow> [] | Some s \<Rightarrow> if s \<noteq> [] then [s] else [])
             @ (case video_url p of None \<Rightarrow> [] | Some s \<Rightarrow> if s \<noteq> [] then [s] else [])"
    by (simp add: eq file_url_delete_task_if_set)
  have d: "\<forall>t \<in> set (snd (snd (delete_post (delete_file_from_imagekit ep ik up) bind_id ok db caller i))).
             raised t = None \<and> logs t \<noteq> []"
    by (auto simp: eq delete_task_if_set_def delete_file_from_imagekit_raised
          delete_file_from_imagekit_logged split: option.splits if_splits)
  from a b c d show ?thesis
    by (simp add: delete_file_client_unavailable delete_file_zero_matches
          delete_file_lookup_raises delete_file_delete_raises)
qed

theorem delete_post_cleanup_witness:
  "fst (delete_post
      (delete_file_from_imagekit ''https://ik.imagekit.io/demo''
         (Some \<lparr>list_files = (\<lambda>p. if p = ''/demo/a.jpg'' then Inr [] else Inl (RuntimeError ''timeout'')),
                delete_file = (\<lambda>i. None)\<rparr>) (\<lambda>u. Inr (drop 22 u)))
      (\<lambda>i. if - 9223372036854775808 \<le> i \<and> i \<le> 9223372036854775807 then None else Some OverflowError)
      True
      \<lparr>posts = [\<lparr>post_id = 1, title = ''t'', content = None,
                 image_url = Some ''https://ik.imagekit.io/demo/a.jpg'',
                 video_url = Some ''https://ik.imagekit.io/demo/b.mp4'', owner_id = 7\<rparr>],
       comments = [\<lparr>comment_id = 5, comment_content = ''hi'', comment_owner_id = 8,
                    comment_post_id = 1\<rparr>]\<rparr>
      \<lparr>user_id = 7, email = ''a@x.org'', hashed_password = ''h'', is_active = True,
       is_superuser = False, is_verified = True, full_name = None\<rparr>
      1) = Inr ()
   \<and> fst (snd (delete_post
      (delete_file_from_imagekit ''https://ik.imagekit.io/demo''
         (Some \<lparr>list_files = (\<lambda>p. if p = ''/demo/a.jpg'' then Inr [] else Inl (RuntimeError ''timeout'')),
                delete_file = (\<lambda>i. None)\<rparr>) (\<lambda>u. Inr (drop 22 u)))
      (\<lambda>i. if - 9223372036854775808 \<le> i \<and> i \<le> 9223372036854775807 then None else Some OverflowError)
      True
      \<lparr>posts = [\<lparr>post_id = 1, title = ''t'', content = None,
                 image_url = Some ''https://ik.imagekit.io/demo/a.jpg'',
                 video_url = Some ''https://ik.imagekit.io/demo/b.mp4'', owner_id = 7\<rparr>],
       comments = [\<lparr>comment_id = 5, comment_content = ''hi'', comment_owner_id = 8,
                    comment_post_id = 1\<rparr>]\<rparr>
      \<lparr>user_id = 7, email = ''a@x.org'', hashed_password = ''h'', is_active = True,
       is_superuser = False, is_verified = True, full_name = None\<rparr>
      1)) = \<lparr>posts = [], comments = []\<rparr>
   \<and> map file_url (snd (snd (delete_post
      (delete_file_from_imagekit ''https://ik.imagekit.io/demo''
         (Some \<lparr>list_files = (\<lambda>p. if p = ''/demo/a.jpg'' then Inr [] else Inl (RuntimeError ''timeout'')),
                delete_file = (\<lambda>i. None)\<rparr>) (\<lambda>u. Inr (drop 22 u)))
      (\<lambda>i. if - 9223372036854775808 \<le> i \<and> i \<le> 9223372036854775807 then None else Some OverflowError)
      True
      \<lparr>posts = [\<lparr>post_id = 1, title = ''t'', content = None,
                 image_url = Some ''https://ik.imagekit.io/demo/a.jpg'',
                 video_url = Some ''https://ik.imagekit.io/demo/b.mp4'', owner_id = 7\<rparr>],
       comments = [\<lparr>comment_id = 5, comment_content = ''hi'', comment_owner_id = 8,
                    comment_post_id = 1\<rparr>]\<rparr>
      \<lparr>user_id = 7, email = ''a@x.org'', hashed_password = ''h'', is_active = True,
       is_superuser = False, is_verified = True, full_name = None\<rparr>
      1))) = [''https://ik.imagekit.io/demo/a.jpg'', ''https://ik.imagekit.io/demo/b.mp4'']"
proof -
  have found: "select_post
      (\<lambda>i. if - 9223372036854775808 \<le> i \<and> i \<le> 9223372036854775807 then None else Some OverflowError)
      (posts \<lparr>posts = [\<lparr>post_id = 1, title = ''t'', content = None,
                 image_url = Some ''https://ik.imagekit.io/demo/a.jpg'',
                 video_url = Some ''https://ik.imagekit.io/demo/b.mp4'', owner_id = 7\<rparr>],
       comments = [\<lparr>comment_id = 5, comment_content = ''hi'', comment_owner_id = 8,
                    comment_post_id = 1\<rparr>]\<rparr>) 1
     = Inr (Some \<lparr>post_id = 1, title = ''t'', content = None,
                 image_url = Some ''https://ik.imagekit.io/demo/a.jpg'',
                 video_url = Some ''https://ik.imagekit.io/demo/b.mp4'', owner_id = 7\<rparr>)"
    by (simp add: select_post_def)
  have owner: "owner_id \<lparr>post_id = 1, title = ''t'', content = None,
                 image_url = Some ''https://ik.imagekit.io/demo/a.jpg'',
                 video_url = Some ''https://ik.imagekit.io/demo/b.mp4'', owner_id = 7\<rparr>
     = user_id \<lparr>user_id = 7, email = ''a@x.org'', hashed_password = ''h'', is_active = True,
       is_superuser = False, is_verified = True, full_name = None\<rparr>"
    by simp
  note t = delete_post_cleanup [OF found owner TrueI]
  from t [THEN conjunct1] t [THEN conjunct2, THEN conjunct1]
    t [THEN conjunct2, THEN conjunct2, THEN conjunct1]
  show ?thesis by simp
qed

text \<open>
  A deletion by the owner on which the claim as the spec words it fails: the image URL
  of the post is the empty string, which is not null, and no deletion task runs.
\<close>

theorem delete_post_cleanup_counterexample:
  "delete_post
      (delete_file_from_imagekit ''https://ik.imagekit.io/demo''
         (Some \<lparr>list_files = (\<lambda>p. Inr [p]), delete_file = (\<lambda>i. None)\<rparr>) (\<lambda>u. Inr (drop 22 u)))
      (\<lambda>i. if - 9223372036854775808 \<le> i \<and> i \<le> 9223372036854775807 then None else Some OverflowError)
      True
      \<lparr>posts = [\<lparr>post_id = 1, title = ''t'', content = None, image_url = Some [],
                 video_url = None, owner_id = 7\<rparr>],
       comments = []\<rparr>
      \<lparr>user_id = 7, email = ''a@x.org'', hashed_password = ''h'', is_active = True,
       is_superuser = False, is_verified = True, full_name = None\<rparr>
      1
   = (Inr (), \<lparr>posts = [], comments = []\<rparr>, [])"
  by (simp add: select_post_def delete_post_def Let_def delete_task_if_set_def gather_def)

section \<open>Properties of the refresh exchange\<close>

lemma refresh_token_succeeds:
  assumes "cookies ''refresh_token'' = Some t" "t \<noteq> []"
    and "strategy_read t = Some u" "is_active u"
  shows "refresh_token strategy_read strategy_write env cookies =
     Inr \<lparr>access_token = strategy_write access_lifetime u, token_type = ''bearer'',
          set_cookie = refresh_cookie env (strategy_write refresh_lifetime u)\<rparr>"
  using assms by (simp add: refresh_token_def refresh_token_try_def)

lemma refresh_token_same_second:
  assumes "write_token enc str now refresh_lifetime u \<noteq> []"
    and "read_token dec UUID users (write_token enc str now refresh_lifetime u) = Some u"
    and "is_active u"
  shows "\<exists>r. refresh_token (read_token dec UUID users) (write_token enc str now) env
              [''refresh_token'' \<mapsto> write_token enc str now refresh_lifetime u] = Inr r
           \<and> cookie_value (set_cookie r) = write_token enc str now refresh_lifetime u"
  using assms by (simp add: refresh_token_succeeds refresh_cookie_def)

text \<open>
  Claim C5, as the code has it. A refresh token \<open>t\<close> that the refresh strategy reads
  as an active user is exchanged at the clock second \<open>now\<close>, and the decoder reads
  the newly written token back as the claims it was written from. The exchange
  succeeds, and the refresh token it returns and sets in the cookie is the one written
  for that user with the expiry \<open>now + 604800\<close>. It differs from \<open>t\<close> whenever the
  expiry of \<open>t\<close> is another one; when \<open>t\<close> is the token written for that user in
  this same second, the token returned is \<open>t\<close> itself.
\<close>

theorem refresh_token_rotation:
  assumes "cookies ''refresh_token'' = Some t" "t \<noteq> []"
    and "read_token dec UUID users t = Some u" "is_active u"
    and "dec t = Inr c"
    and "dec (write_token enc str now refresh_lifetime u) =
           Inr \<lparr>sub = Some (str (user_id u)), aud = [''fastapi-users:auth''],
                exp = now + refresh_lifetime\<rparr>"
  shows "\<exists>r. refresh_token (read_token dec UUID users) (write_token enc str now) env cookies = Inr r
           \<and> cookie_value (set_cookie r) = write_token enc str now refresh_lifetime u
           \<and> (exp c \<noteq> now + refresh_lifetime \<longrightarrow> cookie_value (set_cookie r) \<noteq> t)
           \<and> (t = write_token enc str now refresh_lifetime u \<longrightarrow> cookie_value (set_cookie r) = t)"
proof -
  let ?new = "write_token enc str now refresh_lifetime u"
  have differs: "exp c \<noteq> now + refresh_lifetime \<longrightarrow> ?new \<noteq> t"
  proof
    assume ne: "exp c \<noteq> now + refresh_lifetime"
    show "?new \<noteq> t"
    proof
      assume "?new = t"
      with assms(5,6) have "c = \<lparr>sub = Some (str (user_id u)), aud = [''fastapi-users:auth''],
                exp = now + refresh_lifetime\<rparr>" by simp
      then have "exp c = now + refresh_lifetime" by simp
      with ne show False by simp
    qed
  qed
  have ok: "refresh_token (read_token dec UUID users) (write_token enc str now) env cookies =
     Inr \<lparr>access_token = write_token enc str now access_lifetime u, token_type = ''bearer'',
          set_cookie = refresh_cookie env ?new\<rparr>"
    using assms(1-4) by (rule refresh_token_succeeds)
  from ok differs show ?thesis
    by (simp add: refresh_cookie_def)
qed

theorem refresh_token_rotation_witness:
  "refresh_token
     (read_token
        (\<lambda>t. if t = ''tokA'' then Inr \<lparr>sub = Some ''u1'', aud = [''fastapi-users:auth''], exp = 605800\<rparr>
             else if t = ''tokC'' then Inr \<lparr>sub = Some ''u1'', aud = [''fastapi-users:auth''], exp = 605801\<rparr>
             else Inl DecodeError)
        (\<lambda>s. if s = ''u1'' then Some 1 else None)
        [\<lparr>user_id = 1, email = ''a@x.org'', hashed_password = ''h'', is_active = True,
          is_superuser = False, is_verified = True, full_name = None\<rparr>])
     (write_token
        (\<lambda>c. if exp c = 605800 then ''tokA'' else if exp c = 605801 then ''tokC'' else ''tokB'')
        (\<lambda>i. ''u1'') 1001)
     ''production'' [''refresh_token'' \<mapsto> ''tokA'']
   = Inr \<lparr>access_token = ''tokB'', token_type = ''bearer'',
          set_cookie = \<lparr>cookie_key = ''refresh_token'', cookie_value = ''tokC'', max_age = 604800,
                        httponly = True, secure = True, samesite = ''lax''\<rparr>\<rparr>"
  using refresh_token_rotation [where cookies = "[''refresh_token'' \<mapsto> ''tokA'']" and t = "''tokA''"
     and dec = "\<lambda>t. if t = ''tokA'' then Inr \<lparr>sub = Some ''u1'', aud = [''fastapi-users:auth''], exp = 605800\<rparr>
             else if t = ''tokC'' then Inr \<lparr>sub = Some ''u1'', aud = [''fastapi-users:auth''], exp = 605801\<rparr>
             else Inl DecodeError"
     and UUID = "\<lambda>s. if s = ''u1'' then Some 1 else None"
     and users = "[\<lparr>user_id = 1, email = ''a@x.org'', hashed_password = ''h'', is_active = True,
          is_superuser = False, is_verified = True, full_name = None\<rparr>]"
     and u = "\<lparr>user_id = 1, email = ''a@x.org'', hashed_password = ''h'', is_active = True,
          is_superuser = False, is_verified = True, full_name = None\<rparr>"
     and c = "\<lparr>sub = Some ''u1'', aud = [''fastapi-users:auth''], exp = 605800\<rparr>"
     and enc = "\<lambda>c. if exp c = 605800 then ''tokA'' else if exp c = 605801 then ''tokC'' else ''tokB''"
     and str = "\<lambda>i. ''u1''" and now = 1001 and env = "''production''"]
  by (simp add: read_token_def user_db_get_def write_token_def refresh_lifetime_def
        access_lifetime_def refresh_token_def refresh_token_try_def refresh_cookie_def)

text \<open>
  A login and a refresh in the same clock second (1000), with a codec given by a table:
  the refresh token the login sets is submitted at once, and the exchange returns the
  same string. By \<open>refresh_token_same_second\<close> this is so for every encoder, since
  the string is a function of the user, the audience and the expiry in whole seconds.
\<close>

theorem refresh_token_rotation_counterexample:
  "login
     (UserManager_authenticate (\<lambda>p h. h = ''hash:'' @ p)
        (\<lambda>e. if e = ''a@x.org'' then
                Some \<lparr>user_id = 1, email = ''a@x.org'', hashed_password = ''hash:pw'',
                      is_active = True, is_superuser = False, is_verified = True,
                      full_name = None\<rparr>
              else None))
     (write_token
        (\<lambda>c. if exp c = 605800 then ''tokA'' else if exp c = 605801 then ''tokC'' else ''tokB'')
        (\<lambda>i. ''u1'') 1000)
     ''production'' \<lparr>username = ''a@x.org'', password = ''pw''\<rparr>
   = Inr \<lparr>access_token = ''tokB'', token_type = ''bearer'',
          set_cookie = \<lparr>cookie_key = ''refresh_token'', cookie_value = ''tokA'', max_age = 604800,
                        httponly = True, secure = True, samesite = ''lax''\<rparr>\<rparr>
   \<and> refresh_token
     (read_token
        (\<lambda>t. if t = ''tokA'' then Inr \<lparr>sub = Some ''u1'', aud = [''fastapi-users:auth''], exp = 605800\<rparr>
             else if t = ''tokC'' then Inr \<lparr>sub = Some ''u1'', aud = [''fastapi-users:auth''], exp = 605801\<rparr>
             else Inl DecodeError)
        (\<lambda>s. if s = ''u1'' then Some 1 else None)
        [\<lparr>user_id = 1, email = ''a@x.org'', hashed_password = ''hash:pw'', is_active = True,
          is_superuser = False, is_verified = True, full_name = None\<rparr>])
     (write_token
        (\<lambda>c. if exp c = 605800 then ''tokA'' else if exp c = 605801 then ''tokC'' else ''tokB'')
        (\<lambda>i. ''u1'') 1000)
     ''production'' [''refresh_token'' \<mapsto> ''tokA'']
   = Inr \<lparr>access_token = ''tokB'', token_type = ''bearer'',
          set_cookie = \<lparr>cookie_key = ''refresh_token'', cookie_value = ''tokA'', max_age = 604800,
                        httponly = True, secure = True, samesite = ''lax''\<rparr>\<rparr>"
  by (simp add: login_def UserManager_authenticate_def read_token_def user_db_get_def
        write_token_def refresh_lifetime_def access_lifetime_def refresh_token_def
        refresh_token_try_def refresh_cookie_def)

end
